theory Spec2Isabelle
  imports Complex_Main "HOL-Library.Sublist"
begin

section \<open>Data model of \<open>optimization.py\<close>\<close>

text \<open>
  Python floats are idealised as \<^typ>\<open>real\<close>, Python ints as \<^typ>\<open>int\<close>, Python strings as
  \<^typ>\<open>string\<close> (ASCII characters). The parameter vector is a type parameter \<open>'x\<close>, the opaque
  caller context \<open>model\<close> a type parameter \<open>'m\<close>. Python's \<open>None\<close> in an attribute is the
  value \<open>None\<close> of an option type.
\<close>

datatype error =
    AssertionError string
  | IndexError
  | KeyError string
  | TypeError
  | NotImplementedError string
  | BackendError string

text \<open>
  What the module does to the outside world, in the order it does it: text printed, warnings
  raised through \<open>warnings.warn\<close>, calls into the external minimisers (with the arguments the
  adapter passes), and the adapter's own evaluation of the caller's \<open>f_fp\<close>.
\<close>

datatype 'x event =
    Print string
  | FutureWarning string
  | Call_fmin_tnc 'x bool int "(string \<times> real) list"
  | Call_fmin_l_bfgs_b 'x int int "(string \<times> real) list"
  | Call_fmin 'x bool int "(string \<times> real) list"
  | Call_SCG 'x bool int int "real option" "real option" "real option"
  | Call_Adadelta 'x real real real
  | Eval_f_fp 'x

record ('x, 'm) optimizer =
  opt_name :: "string option"
  x_init :: 'x
  messages :: bool
  f_opt :: "real option"
  x_opt :: "'x option"
  funct_eval :: "int option"
  status :: "string option"
  max_f_eval :: int
  max_iters :: int
  bfgs_factor :: "real option"
  trace :: "real list option"
  time :: string
  xtol :: "real option"
  gtol :: "real option"
  ftol :: "real option"
  model :: "'m option"

text \<open>
  How a caller passes an argument: not at all, by position, or by keyword. The constructor
  of \<open>opt_SCG\<close> looks for \<open>max_f_eval\<close> among the keyword arguments only.
\<close>

datatype 'a passed = Absent | Positional 'a | Keyword 'a

text \<open>
  The arguments of a constructor call. \<open>None\<close> in \<open>arg_messages\<close> and \<open>arg_max_iters\<close>, and
  \<open>Absent\<close> in \<open>arg_max_f_eval\<close>, mean that the caller did not supply the argument, so that
  the default of the signature (\<open>False\<close>, \<open>1e3\<close>, \<open>1e4\<close>) applies; the other optional
  arguments default to Python's \<open>None\<close>. The value passed for \<open>max_f_eval\<close> may itself be
  Python's \<open>None\<close>: the constructor never reads it.
\<close>

record ('x, 'm) init_args =
  arg_x_init :: 'x
  arg_messages :: "bool option"
  arg_model :: "'m option"
  arg_max_f_eval :: "real option passed"
  arg_max_iters :: "real option"
  arg_ftol :: "real option"
  arg_gtol :: "real option"
  arg_xtol :: "real option"
  arg_bfgs_factor :: "real option"

text \<open>Python's \<open>int(x)\<close> on a number: truncation towards zero.\<close>

definition py_int :: "real \<Rightarrow> int" where
  "py_int r = (if 0 \<le> r then \<lfloor>r\<rfloor> else \<lceil>r\<rceil>)"

text \<open>
  The subscript \<open>xs[i]\<close> of a Python list: the indices \<open>-len(xs), \<dots>, -1\<close> address the
  elements from the last one backwards, and any index beyond either end raises.
\<close>

definition py_index :: "'a list \<Rightarrow> int \<Rightarrow> error + 'a" where
  "py_index xs i =
     (if 0 \<le> i \<and> i < int (length xs) then Inr (xs ! nat i)
      else if i < 0 \<and> - int (length xs) \<le> i then Inr (xs ! nat (int (length xs) + i))
      else Inl IndexError)"

subsection \<open>\<open>Optimizer.__init__\<close>\<close>

definition Optimizer_init ::
  "'x \<Rightarrow> bool \<Rightarrow> 'm option \<Rightarrow> real option \<Rightarrow> real \<Rightarrow> real option \<Rightarrow> real option
     \<Rightarrow> real option \<Rightarrow> real option \<Rightarrow> ('x, 'm) optimizer" where
  "Optimizer_init x_init' messages' model' max_f_eval' max_iters' ftol' gtol' xtol' bfgs_factor' =
     \<lparr> opt_name = None,
       x_init = x_init',
       messages = False,
       f_opt = None,
       x_opt = None,
       funct_eval = None,
       status = None,
       max_f_eval = py_int max_iters',
       max_iters = py_int max_iters',
       bfgs_factor = bfgs_factor',
       trace = None,
       time = ''Not available'',
       xtol = xtol',
       gtol = gtol',
       ftol = ftol',
       model = model' \<rparr>"

text \<open>A constructor call with keyword arguments: absent arguments take the signature's defaults.\<close>

definition Optimizer_new :: "('x, 'm) init_args \<Rightarrow> ('x, 'm) optimizer" where
  "Optimizer_new a =
     Optimizer_init (arg_x_init a)
       (case arg_messages a of None \<Rightarrow> False | Some b \<Rightarrow> b)
       (arg_model a)
       (case arg_max_f_eval a of Absent \<Rightarrow> Some 10000 | Positional v \<Rightarrow> v | Keyword v \<Rightarrow> v)
       (case arg_max_iters a of None \<Rightarrow> 1000 | Some v \<Rightarrow> v)
       (arg_ftol a) (arg_gtol a) (arg_xtol a) (arg_bfgs_factor a)"


subsection \<open>\<open>Optimizer.run\<close>, \<open>Optimizer.opt\<close> and \<open>Optimizer.__str__\<close>\<close>

text \<open>
  A method that mutates \<open>self\<close> and may raise returns the exception raised (if any), the
  object as the method left it, and the events it caused, oldest first. An exception keeps the
  assignments made before it, as in Python.
\<close>

type_synonym ('s, 'x) outcome = "error option \<times> 's \<times> 'x event list"

definition Optimizer_opt :: "('x, 'm) optimizer \<Rightarrow> (('x, 'm) optimizer, 'x) outcome" where
  "Optimizer_opt self =
     (Some (NotImplementedError ''this needs to be implemented to use the optimizer class''),
      self, [])"

text \<open>
  \<open>run\<close> calls the variant's \<open>opt\<close> and then stores the elapsed wall-clock time; the clock is
  external, so the text \<open>str(end - start)\<close> is a parameter. A variant's \<open>opt\<close> may loop forever
  (the value \<open>None\<close>), and then so does \<open>run\<close>.
\<close>

definition run ::
  "(('x, 'm, 'z) optimizer_scheme \<Rightarrow> (('x, 'm, 'z) optimizer_scheme, 'x) outcome option) \<Rightarrow> string
     \<Rightarrow> ('x, 'm, 'z) optimizer_scheme \<Rightarrow> (('x, 'm, 'z) optimizer_scheme, 'x) outcome option" where
  "run opt elapsed self =
     (case opt self of
        None \<Rightarrow> None
      | Some (Some e, self', evs) \<Rightarrow> Some (Some e, self', evs)
      | Some (None, self', evs) \<Rightarrow> Some (None, self'\<lparr>time := elapsed\<rparr>, evs))"

definition tab :: char where "tab = CHR 0x09"
definition nl :: char where "nl = CHR 0x0A"

text \<open>Python's \<open>'%s' % v\<close> for an attribute holding a string or \<open>None\<close>.\<close>

definition fmt_s :: "string option \<Rightarrow> string" where
  "fmt_s v = (case v of None \<Rightarrow> ''None'' | Some s \<Rightarrow> s)"

text \<open>
  \<open>__str__\<close>. The renderings of a float by \<open>%.3f\<close> and of an int by \<open>%d\<close> are parameters;
  applied to \<open>None\<close> both conversions raise \<open>TypeError\<close>.
\<close>

definition Optimizer_str ::
  "(real \<Rightarrow> string) \<Rightarrow> (int \<Rightarrow> string) \<Rightarrow> ('x, 'm, 'z) optimizer_scheme \<Rightarrow> error + string" where
  "Optimizer_str fmt_3f fmt_d self =
     (let diagnostics = ''Optimizer: '' @ replicate 4 tab @ '' '' @ fmt_s (opt_name self) @ [nl]
      in case f_opt self of
           None \<Rightarrow> Inl TypeError
         | Some fo \<Rightarrow>
            (let diagnostics = diagnostics @ ''f(x_opt): '' @ replicate 4 tab @ '' ''
                                 @ fmt_3f fo @ [nl]
             in case funct_eval self of
                  None \<Rightarrow> Inl TypeError
                | Some fe \<Rightarrow>
                   (let diagnostics = diagnostics @ ''Number of function evaluations: '' @ [tab]
                                        @ '' '' @ fmt_d fe @ [nl];
                        diagnostics = diagnostics @ ''Optimization status: '' @ replicate 3 tab
                                        @ '' '' @ fmt_s (status self) @ [nl];
                        diagnostics = diagnostics @ ''Time elapsed: '' @ replicate 4 tab @ '' ''
                                        @ time self @ [nl]
                    in Inr diagnostics)))"

subsection \<open>\<open>opt_tnc\<close>\<close>

text \<open>
  The external minimisers are parameters. Each takes the arguments the adapter passes and
  returns what the library call returns, or the exception it raises.
\<close>

type_synonym 'x tnc_backend =
  "('x \<Rightarrow> real \<times> 'x) \<Rightarrow> 'x \<Rightarrow> bool \<Rightarrow> int \<Rightarrow> (string \<times> real) list \<Rightarrow> error + ('x \<times> int \<times> int)"

definition opt_tnc_init :: "('x, 'm) init_args \<Rightarrow> ('x, 'm) optimizer" where
  "opt_tnc_init a = (Optimizer_new a)\<lparr>opt_name := Some ''TNC (Scipy implementation)''\<rparr>"

definition tnc_rcstrings :: "string list" where
  "tnc_rcstrings = [''Local minimum'', ''Converged'', ''XConverged'',
     ''Maximum number of f evaluations reached'', ''Line search failed'',
     ''Function is constant'']"

text \<open>An entry of the keyword dictionary \<open>opt_dict\<close>, added when the attribute is not \<open>None\<close>.\<close>

definition opt_entry :: "string \<Rightarrow> real option \<Rightarrow> (string \<times> real) list" where
  "opt_entry k v = (case v of None \<Rightarrow> [] | Some r \<Rightarrow> [(k, r)])"

definition tnc_opt_dict :: "('x, 'm) optimizer \<Rightarrow> (string \<times> real) list" where
  "tnc_opt_dict self =
     opt_entry ''xtol'' (xtol self) @ opt_entry ''ftol'' (ftol self) @ opt_entry ''pgtol'' (gtol self)"

definition opt_tnc_opt ::
  "'x tnc_backend \<Rightarrow> ('x \<Rightarrow> real \<times> 'x) option \<Rightarrow> ('x \<Rightarrow> real) option \<Rightarrow> ('x \<Rightarrow> 'x) option
     \<Rightarrow> ('x, 'm) optimizer \<Rightarrow> (('x, 'm) optimizer, 'x) outcome" where
  "opt_tnc_opt fmin_tnc f_fp f fp self =
     (case f_fp of
        None \<Rightarrow> (Some (AssertionError ''TNC requires f_fp''), self, [])
      | Some ffp \<Rightarrow>
         (let opt_dict = tnc_opt_dict self;
              call = Call_fmin_tnc (x_init self) (messages self) (max_f_eval self) opt_dict
          in case fmin_tnc ffp (x_init self) (messages self) (max_f_eval self) opt_dict of
               Inl e \<Rightarrow> (Some e, self, [call])
             | Inr (x, nfeval, rc) \<Rightarrow>
                (let self = self\<lparr>x_opt := Some x\<rparr>;
                     self = self\<lparr>f_opt := Some (fst (ffp x))\<rparr>;
                     self = self\<lparr>funct_eval := Some nfeval\<rparr>
                 in (case py_index tnc_rcstrings rc of
                       Inl e \<Rightarrow> (Some e, self, [call, Eval_f_fp x])
                     | Inr s \<Rightarrow> (None, self\<lparr>status := Some s\<rparr>, [call, Eval_f_fp x])))))"

subsection \<open>\<open>opt_lbfgsb\<close>\<close>

text \<open>The entries of the information dictionary of \<open>fmin_l_bfgs_b\<close> that the adapter reads.\<close>

record lbfgsb_info =
  funcalls :: int
  warnflag :: int
  task :: string

type_synonym 'x lbfgsb_backend =
  "('x \<Rightarrow> real \<times> 'x) \<Rightarrow> 'x \<Rightarrow> int \<Rightarrow> int \<Rightarrow> (string \<times> real) list
     \<Rightarrow> error + ('x \<times> real \<times> lbfgsb_info)"

definition opt_lbfgsb_init :: "('x, 'm) init_args \<Rightarrow> ('x, 'm) optimizer" where
  "opt_lbfgsb_init a = (Optimizer_new a)\<lparr>opt_name := Some ''L-BFGS-B (Scipy implementation)''\<rparr>"

definition rcstrings :: "string list" where
  "rcstrings = [''Converged'', ''Maximum number of f evaluations reached'', ''Error'']"

definition warn_xtol_lbfgsb :: string where
  "warn_xtol_lbfgsb = ''WARNING: l-bfgs-b doesn't have an xtol arg, so I'm going to ignore it''"

definition warn_ftol_lbfgsb :: string where
  "warn_ftol_lbfgsb = ''WARNING: l-bfgs-b doesn't have an ftol arg, so I'm going to ignore it''"

text \<open>A \<open>print\<close> guarded by \<open>if v is not None\<close>.\<close>

definition print_if_set :: "real option \<Rightarrow> string \<Rightarrow> 'x event list" where
  "print_if_set v msg = (case v of None \<Rightarrow> [] | Some _ \<Rightarrow> [Print msg])"

definition lbfgsb_opt_dict :: "('x, 'm) optimizer \<Rightarrow> (string \<times> real) list" where
  "lbfgsb_opt_dict self =
     opt_entry ''pgtol'' (gtol self) @ opt_entry ''factr'' (bfgs_factor self)"

definition opt_lbfgsb_opt ::
  "'x lbfgsb_backend \<Rightarrow> ('x \<Rightarrow> real \<times> 'x) option \<Rightarrow> ('x \<Rightarrow> real) option \<Rightarrow> ('x \<Rightarrow> 'x) option
     \<Rightarrow> ('x, 'm) optimizer \<Rightarrow> (('x, 'm) optimizer, 'x) outcome" where
  "opt_lbfgsb_opt fmin_l_bfgs_b f_fp f fp self =
     (case f_fp of
        None \<Rightarrow> (Some (AssertionError ''BFGS requires f_fp''), self, [])
      | Some ffp \<Rightarrow>
         (let iprint = (if messages self then 1 else - 1);
              printed = print_if_set (xtol self) warn_xtol_lbfgsb
                          @ print_if_set (ftol self) warn_ftol_lbfgsb;
              opt_dict = lbfgsb_opt_dict self;
              call = Call_fmin_l_bfgs_b (x_init self) iprint (max_iters self) opt_dict
          in case fmin_l_bfgs_b ffp (x_init self) iprint (max_iters self) opt_dict of
               Inl e \<Rightarrow> (Some e, self, printed @ [call])
             | Inr (x, fval, d) \<Rightarrow>
                (let self = self\<lparr>x_opt := Some x\<rparr>;
                     self = self\<lparr>f_opt := Some (fst (ffp x))\<rparr>;
                     self = self\<lparr>funct_eval := Some (funcalls d)\<rparr>
                 in (case py_index rcstrings (warnflag d) of
                       Inl e \<Rightarrow> (Some e, self, printed @ [call, Eval_f_fp x])
                     | Inr s \<Rightarrow>
                        (let self = self\<lparr>status := Some s\<rparr>;
                             self = (if warnflag d = 2
                                     then self\<lparr>status := Some (''Error'' @ task d)\<rparr> else self)
                         in (None, self, printed @ [call, Eval_f_fp x]))))))"

subsection \<open>\<open>opt_simplex\<close>\<close>

type_synonym 'x fmin_backend =
  "('x \<Rightarrow> real) option \<Rightarrow> 'x \<Rightarrow> bool \<Rightarrow> int \<Rightarrow> (string \<times> real) list
     \<Rightarrow> error + ('x \<times> real \<times> int \<times> int \<times> int)"

definition opt_simplex_init :: "('x, 'm) init_args \<Rightarrow> ('x, 'm) optimizer" where
  "opt_simplex_init a =
     (Optimizer_new a)\<lparr>opt_name := Some ''Nelder-Mead simplex routine (via Scipy)''\<rparr>"

definition statuses :: "string list" where
  "statuses = [''Converged'', ''Maximum number of function evaluations made'',
     ''Maximum number of iterations reached'']"

definition warn_gtol_simplex :: string where
  "warn_gtol_simplex = ''WARNING: simplex doesn't have an gtol arg, so I'm going to ignore it''"

definition simplex_opt_dict :: "('x, 'm) optimizer \<Rightarrow> (string \<times> real) list" where
  "simplex_opt_dict self = opt_entry ''xtol'' (xtol self) @ opt_entry ''ftol'' (ftol self)"

definition opt_simplex_opt ::
  "'x fmin_backend \<Rightarrow> ('x \<Rightarrow> real \<times> 'x) option \<Rightarrow> ('x \<Rightarrow> real) option \<Rightarrow> ('x \<Rightarrow> 'x) option
     \<Rightarrow> ('x, 'm) optimizer \<Rightarrow> (('x, 'm) optimizer, 'x) outcome" where
  "opt_simplex_opt fmin f_fp f fp self =
     (let opt_dict = simplex_opt_dict self;
          printed = print_if_set (gtol self) warn_gtol_simplex;
          call = Call_fmin (x_init self) (messages self) (max_f_eval self) opt_dict
      in case fmin f (x_init self) (messages self) (max_f_eval self) opt_dict of
           Inl e \<Rightarrow> (Some e, self, printed @ [call])
         | Inr (x, fval, iters, fcalls, wflag) \<Rightarrow>
            (let self = self\<lparr>x_opt := Some x\<rparr>;
                 self = self\<lparr>f_opt := Some fval\<rparr>;
                 self = self\<lparr>funct_eval := Some fcalls\<rparr>
             in (case py_index statuses wflag of
                   Inl e \<Rightarrow> (Some e, self, printed @ [call])
                 | Inr s \<Rightarrow>
                     (None, self\<lparr>status := Some s, trace := None\<rparr>, printed @ [call]))))"

subsection \<open>\<open>opt_SCG\<close>\<close>

text \<open>
  The minimiser \<open>SCG\<close> that \<open>opt_SCG.opt\<close> calls comes from another module; like the library
  minimisers it is a parameter here. Its arithmetic is in double precision, which this
  development does not model.
\<close>

type_synonym 'x scg_backend =
  "('x \<Rightarrow> real) \<Rightarrow> ('x \<Rightarrow> 'x) \<Rightarrow> 'x \<Rightarrow> bool \<Rightarrow> int \<Rightarrow> int \<Rightarrow> real option \<Rightarrow> real option
     \<Rightarrow> real option \<Rightarrow> error + ('x \<times> real list \<times> int \<times> string)"

definition warn_max_f_eval :: string where
  "warn_max_f_eval = ''max_f_eval deprecated for SCG optimizer: use max_iters instead!'' @ [nl]
                       @ ''Ignoring max_f_eval!''"

definition opt_SCG_init :: "('x, 'm) init_args \<Rightarrow> ('x, 'm) optimizer \<times> 'x event list" where
  "opt_SCG_init a =
     (let warned = (case arg_max_f_eval a of
                      Keyword _ \<Rightarrow> [FutureWarning warn_max_f_eval]
                    | _ \<Rightarrow> [])
      in ((Optimizer_new a)\<lparr>opt_name := Some ''Scaled Conjugate Gradients''\<rparr>, warned))"

definition opt_SCG_opt ::
  "'x scg_backend \<Rightarrow> ('x \<Rightarrow> real \<times> 'x) option \<Rightarrow> ('x \<Rightarrow> real) option \<Rightarrow> ('x \<Rightarrow> 'x) option
     \<Rightarrow> ('x, 'm) optimizer \<Rightarrow> (('x, 'm) optimizer, 'x) outcome" where
  "opt_SCG_opt SCG f_fp f fp self =
     (case f of
        None \<Rightarrow> (Some (AssertionError []), self, [])
      | Some f' \<Rightarrow>
         (case fp of
            None \<Rightarrow> (Some (AssertionError []), self, [])
          | Some fp' \<Rightarrow>
             (let call = Call_SCG (x_init self) (messages self) (max_iters self) (max_f_eval self)
                           (xtol self) (ftol self) (gtol self)
              in case SCG f' fp' (x_init self) (messages self) (max_iters self) (max_f_eval self)
                        (xtol self) (ftol self) (gtol self) of
                   Inl e \<Rightarrow> (Some e, self, [call])
                 | Inr (x, flog, fe, st) \<Rightarrow>
                    (let self = self\<lparr>x_opt := Some x\<rparr>;
                         self = self\<lparr>trace := Some flog\<rparr>
                     in (case py_index flog (- 1) of
                           Inl e \<Rightarrow> (Some e, self, [call])
                         | Inr v \<Rightarrow>
                            (let self = self\<lparr>f_opt := Some v\<rparr>;
                                 self = self\<lparr>funct_eval := Some fe\<rparr>;
                                 self = self\<lparr>status := Some st\<rparr>
                             in (None, self, [call])))))))"

subsection \<open>\<open>Opt_Adadelta\<close>\<close>

record ('x, 'm) adadelta = "('x, 'm) optimizer" +
  step_rate :: real
  decay :: real
  momentum :: real

definition Opt_Adadelta_init ::
  "real option \<Rightarrow> real option \<Rightarrow> real option \<Rightarrow> ('x, 'm) init_args \<Rightarrow> ('x, 'm) adadelta" where
  "Opt_Adadelta_init step_rate' decay' momentum' a =
     (let b = Optimizer_new a
      in \<lparr> opt_name = Some ''Adadelta (climin)'',
           x_init = x_init b,
           messages = messages b,
           f_opt = f_opt b,
           x_opt = x_opt b,
           funct_eval = funct_eval b,
           status = status b,
           max_f_eval = max_f_eval b,
           max_iters = max_iters b,
           bfgs_factor = bfgs_factor b,
           trace = trace b,
           time = time b,
           xtol = xtol b,
           gtol = gtol b,
           ftol = ftol b,
           model = model b,
           step_rate = (case step_rate' of None \<Rightarrow> 0.1 | Some v \<Rightarrow> v),
           decay = (case decay' of None \<Rightarrow> 0.9 | Some v \<Rightarrow> v),
           momentum = (case momentum' of None \<Rightarrow> 0 | Some v \<Rightarrow> v) \<rparr>)"

text \<open>
  The external \<open>climin\<close> minimiser is an iterator that the adapter drives. It is a parameter:
  for the arguments of its constructor it gives, for each \<open>k\<close>, what the \<open>k\<close>-th request for a
  next element yields, namely the entry \<open>n_iter\<close> of the \<open>info\<close> dictionary together with the
  value of the iterator's attribute \<open>wrt\<close> at that moment, or \<open>None\<close> when the iterator is
  exhausted.
\<close>

type_synonym 'x adadelta_backend =
  "'x \<Rightarrow> ('x \<Rightarrow> 'x) \<Rightarrow> real \<Rightarrow> real \<Rightarrow> real \<Rightarrow> nat \<Rightarrow> (int \<times> 'x) option"

definition status_adadelta :: string where
  "status_adadelta = ''maximum number of function evaluations exceeded ''"

text \<open>
  The \<open>for info in opt\<close> loop, from the \<open>k\<close>-th element on. It need not end: the result is
  \<open>None\<close> when it runs forever.
\<close>

partial_function (option) adadelta_loop ::
  "(nat \<Rightarrow> (int \<times> 'x) option) \<Rightarrow> nat \<Rightarrow> ('x, 'm) adadelta \<Rightarrow> ('x, 'm) adadelta option" where
  "adadelta_loop it k self =
     (case it k of
        None \<Rightarrow> Some self
      | Some (n_iter, wrt) \<Rightarrow>
          if n_iter \<ge> max_iters self
          then Some (self\<lparr>x_opt := Some wrt, status := Some status_adadelta\<rparr>)
          else adadelta_loop it (Suc k) self)"

definition Opt_Adadelta_opt ::
  "'x adadelta_backend \<Rightarrow> ('x \<Rightarrow> real \<times> 'x) option \<Rightarrow> ('x \<Rightarrow> real) option \<Rightarrow> ('x \<Rightarrow> 'x) option
     \<Rightarrow> ('x, 'm) adadelta \<Rightarrow> (('x, 'm) adadelta, 'x) outcome option" where
  "Opt_Adadelta_opt Adadelta f_fp f fp self =
     (case fp of
        None \<Rightarrow> Some (Some (AssertionError []), self, [])
      | Some fp' \<Rightarrow>
         (let opt = Adadelta (x_init self) fp' (step_rate self) (decay self) (momentum self);
              call = Call_Adadelta (x_init self) (step_rate self) (decay self) (momentum self)
          in case adadelta_loop opt 0 self of
               None \<Rightarrow> None
             | Some self' \<Rightarrow> Some (None, self', [call])))"

subsection \<open>\<open>get_optimizer\<close>\<close>

datatype variant = Opt_tnc | Opt_simplex | Opt_lbfgsb | Opt_SCG | Opt_Adadelta

text \<open>\<open>str.lower\<close> on ASCII text.\<close>

definition lower_char :: "char \<Rightarrow> char" where
  "lower_char c =
     (let n = (of_char c :: nat) in if 65 \<le> n \<and> n \<le> 90 then char_of (n + 32) else c)"

definition lower :: "string \<Rightarrow> string" where
  "lower s = map lower_char s"

text \<open>
  \<open>s.find(sub)\<close>: the lowest index at which \<open>sub\<close> occurs in \<open>s\<close>, or \<open>-1\<close>. The auxiliary
  function searches the rest of the text, \<open>i\<close> being the index of its first character.
\<close>

fun find_from :: "string \<Rightarrow> string \<Rightarrow> int \<Rightarrow> int" where
  "find_from [] sub i = (if sub = [] then i else - 1)"
| "find_from (c # s) sub i = (if prefix sub (c # s) then i else find_from s sub (i + 1))"

definition py_find :: "string \<Rightarrow> string \<Rightarrow> int" where
  "py_find s sub = find_from s sub 0"

text \<open>The dictionary \<open>optimizers\<close>, in insertion order, which is the order \<open>keys()\<close> iterates in.\<close>

definition optimizers :: "(string \<times> variant) list" where
  "optimizers =
     [(''fmin_tnc'', Opt_tnc),
      (''simplex'', Opt_simplex),
      (''lbfgsb'', Opt_lbfgsb),
      (''scg'', Opt_SCG),
      (''adadelta'', Opt_Adadelta)]"

fun get_optimizer_loop :: "string list \<Rightarrow> string \<Rightarrow> error + variant" where
  "get_optimizer_loop [] f_min =
     Inl (KeyError (''No optimizer was found matching the name: '' @ f_min))"
| "get_optimizer_loop (opt_name' # keys) f_min =
     (if py_find (lower opt_name') (lower f_min) \<noteq> - 1
      then (case map_of optimizers opt_name' of
              None \<Rightarrow> Inl (KeyError opt_name')
            | Some v \<Rightarrow> Inr v)
      else get_optimizer_loop keys f_min)"

definition get_optimizer :: "string \<Rightarrow> error + variant" where
  "get_optimizer f_min = get_optimizer_loop (map fst optimizers) f_min"

section \<open>The registry lookup as the specification words it\<close>

text \<open>
  The specification's \<open>lookup\<close>: a key matches when the query is contained in it as a
  contiguous piece, letter case aside, and the variant of the first matching key in the order
  of the registry is the result.
\<close>

definition contains_ci :: "string \<Rightarrow> string \<Rightarrow> bool" where
  "contains_ci name key = sublist (lower name) (lower key)"

definition lookup_spec :: "string \<Rightarrow> variant option" where
  "lookup_spec name = map_option snd (List.find (\<lambda>(key, v). contains_ci name key) optimizers)"

definition no_such_optimizer :: "string \<Rightarrow> error" where
  "no_such_optimizer name = KeyError (''No optimizer was found matching the name: '' @ name)"

section \<open>Sample inputs\<close>

text \<open>
  Concrete callers and backends at which the properties below are evaluated: a constructor
  call with no optional argument, the objective \<open>(x1 - 3)\<^sup>2 + (x2 + 1)\<^sup>2\<close> of the
  specification's scenario with its gradient, and backends that return a fixed result
  whatever they are asked.
\<close>

definition args0 :: "(real list, unit) init_args" where
  "args0 = \<lparr> arg_x_init = [0, 0], arg_messages = None, arg_model = None,
             arg_max_f_eval = Absent, arg_max_iters = None, arg_ftol = None, arg_gtol = None,
             arg_xtol = None, arg_bfgs_factor = None \<rparr>"

definition quad_f :: "real list \<Rightarrow> real" where
  "quad_f v = (case v of [x1, x2] \<Rightarrow> (x1 - 3)\<^sup>2 + (x2 + 1)\<^sup>2 | _ \<Rightarrow> 0)"

definition quad_fp :: "real list \<Rightarrow> real list" where
  "quad_fp v = (case v of [x1, x2] \<Rightarrow> [2 * (x1 - 3), 2 * (x2 + 1)] | _ \<Rightarrow> [])"

definition quad_f_fp :: "real list \<Rightarrow> real \<times> real list" where
  "quad_f_fp v = (quad_f v, quad_fp v)"

definition tnc_stub :: "real list \<times> int \<times> int \<Rightarrow> real list tnc_backend" where
  "tnc_stub r f_fp x0 msgs maxfun opts = Inr r"

definition lbfgsb_stub :: "real list \<times> real \<times> lbfgsb_info \<Rightarrow> real list lbfgsb_backend" where
  "lbfgsb_stub r f_fp x0 iprint maxfun opts = Inr r"

definition fmin_stub :: "real list \<times> real \<times> int \<times> int \<times> int \<Rightarrow> real list fmin_backend" where
  "fmin_stub r f x0 disp maxfun opts = Inr r"

definition scg_stub :: "real list \<times> real list \<times> int \<times> string \<Rightarrow> real list scg_backend" where
  "scg_stub r f fp x0 display maxiters maxfeval xt ft gt = Inr r"

text \<open>
  An iterator as \<open>climin\<close> builds it: it never ends, and its elements carry the values
  \<open>1, 2, 3, \<dots>\<close> of \<open>n_iter\<close>.
\<close>

definition adadelta_stub :: "real list adadelta_backend" where
  "adadelta_stub x0 fp sr dc mo k = Some (int k + 1, x0)"

text \<open>A stand-in for the renderings of numbers in \<open>__str__\<close>.\<close>

definition fmt_stub :: "'a \<Rightarrow> string" where
  "fmt_stub v = ''0''"

text \<open>Whether a logged backend call asks the backend for progress output.\<close>

fun progress_output :: "'x event \<Rightarrow> bool" where
  "progress_output (Call_fmin_tnc _ msgs _ _) = msgs"
| "progress_output (Call_fmin_l_bfgs_b _ iprint _ _) = (0 \<le> iprint)"
| "progress_output (Call_fmin _ disp _ _) = disp"
| "progress_output (Call_SCG _ display _ _ _ _ _) = display"
| "progress_output _ = False"

section \<open>Properties\<close>

subsection \<open>Auxiliary facts\<close>

lemma py_int_numeral: "py_int (numeral n) = numeral n"
  by (simp add: py_int_def)

lemma py_index_out_of_range:
  "i < - int (length xs) \<or> int (length xs) \<le> i \<Longrightarrow> py_index xs i = Inl IndexError"
  by (auto simp: py_index_def)

lemma py_index_in_range:
  "0 \<le> i \<Longrightarrow> i < int (length xs) \<Longrightarrow> py_index xs i = Inr (xs ! nat i)"
  by (simp add: py_index_def)

lemma print_if_set_eq: "print_if_set v m = (if v = None then [] else [Print m])"
  by (simp add: print_if_set_def split: option.splits)

lemma messages_new: "messages (Optimizer_new a) = False"
  by (simp add: Optimizer_new_def Optimizer_init_def)

lemmas init_defs = opt_tnc_init_def opt_lbfgsb_init_def opt_simplex_init_def opt_SCG_init_def
  Opt_Adadelta_init_def Optimizer_new_def Optimizer_init_def args0_def py_int_numeral

lemmas stub_defs = tnc_stub_def lbfgsb_stub_def fmin_stub_def scg_stub_def quad_f_fp_def
  quad_f_def quad_fp_def

lemmas dict_defs = tnc_opt_dict_def lbfgsb_opt_dict_def simplex_opt_dict_def opt_entry_def
  print_if_set_def

subsection \<open>The evaluation budget\<close>

text \<open>
  C1. The claim: the stored \<open>max_f_eval\<close> is the caller's \<open>max_f_eval\<close> argument, \<open>10000\<close> by
  default, and it is what the backend gets as its evaluation budget. The constructor stores
  \<open>int(max_iters)\<close> in both \<open>max_f_eval\<close> and \<open>max_iters\<close>: a caller who asks for a budget of
  \<open>500\<close> evaluations and \<open>20\<close> iterations gets the budget \<open>20\<close>, a caller who supplies neither
  gets \<open>1000\<close>, and the \<open>max_f_eval\<close> argument never has an effect. The L-BFGS-B adapter
  passes the attribute \<open>max_iters\<close> as \<open>maxfun\<close>: with the attributes set to \<open>500\<close> and \<open>20\<close>,
  the backend is called with \<open>20\<close>. A TNC adapter constructed with \<open>max_f_eval=500\<close> and
  \<open>max_iters=20\<close> calls its backend with \<open>maxfun=20\<close>.
\<close>

theorem max_f_eval_takes_max_iters:
  "max_f_eval (Optimizer_new
       (args0\<lparr>arg_max_f_eval := Keyword (Some 500), arg_max_iters := Some 20\<rparr>)) = 20
   \<and> max_f_eval (Optimizer_new args0) = 1000
   \<and> max_f_eval (Optimizer_new (a\<lparr>arg_max_f_eval := v\<rparr>)) = max_f_eval (Optimizer_new a)
   \<and> snd (snd (opt_lbfgsb_opt
        (lbfgsb_stub ([3, - 1], 0, \<lparr>funcalls = 12, warnflag = 0, task = ''CONVERGENCE''\<rparr>))
        (Some quad_f_fp) None None
        ((opt_lbfgsb_init args0)\<lparr>max_f_eval := 500, max_iters := 20\<rparr>)))
      = [Call_fmin_l_bfgs_b [0, 0] (- 1) 20 [], Eval_f_fp [3, - 1]]
   \<and> snd (snd (opt_tnc_opt (tnc_stub ([3, - 1], 12, 1)) (Some quad_f_fp) None None
        (opt_tnc_init (args0\<lparr>arg_max_f_eval := Keyword (Some 500), arg_max_iters := Some 20\<rparr>))))
      = [Call_fmin_tnc [0, 0] False 20 [], Eval_f_fp [3, - 1]]"
  by (simp add: opt_lbfgsb_opt_def opt_tnc_opt_def init_defs stub_defs dict_defs py_index_def
      rcstrings_def tnc_rcstrings_def)

subsection \<open>Status codes\<close>

text \<open>
  C3, as stated: every status code outside the range of the lookup table makes the run fail,
  negative codes included. It fails for the code \<open>-1\<close> that the TNC backend can return: the
  run succeeds and reports the last entry of the table.
\<close>

theorem negative_code_mapped:
  "opt_tnc_opt (tnc_stub ([3, - 1], 12, - 1)) (Some quad_f_fp) None None (opt_tnc_init args0)
     = (None,
        (opt_tnc_init args0)\<lparr>x_opt := Some [3, - 1], f_opt := Some 0, funct_eval := Some 12,
           status := Some ''Function is constant''\<rparr>,
        [Call_fmin_tnc [0, 0] False 1000 [], Eval_f_fp [3, - 1]])"
  by (simp add: opt_tnc_opt_def init_defs stub_defs dict_defs py_index_def tnc_rcstrings_def)

text \<open>
  C3, amended: a status code that is at least the length of the table, or below minus the
  length of the table, makes the run of the TNC, L-BFGS-B and simplex adapters fail with
  \<open>IndexError\<close>.
\<close>

theorem out_of_range_code_fails:
  "(fmin_tnc g (x_init self) (messages self) (max_f_eval self) (tnc_opt_dict self) = Inr (x, n, rc)
      \<and> (rc < - int (length tnc_rcstrings) \<or> int (length tnc_rcstrings) \<le> rc)
    \<longrightarrow> fst (opt_tnc_opt fmin_tnc (Some g) f fp self) = Some IndexError)
   \<and> (fmin_l_bfgs_b g (x_init self) (if messages self then 1 else - 1) (max_iters self)
         (lbfgsb_opt_dict self) = Inr (x, fv, d)
      \<and> (warnflag d < - int (length rcstrings) \<or> int (length rcstrings) \<le> warnflag d)
    \<longrightarrow> fst (opt_lbfgsb_opt fmin_l_bfgs_b (Some g) f fp self) = Some IndexError)
   \<and> (fmin f (x_init self) (messages self) (max_f_eval self) (simplex_opt_dict self)
         = Inr (x, fv, its, fcalls, wflag)
      \<and> (wflag < - int (length statuses) \<or> int (length statuses) \<le> wflag)
    \<longrightarrow> fst (opt_simplex_opt fmin f_fp f fp self) = Some IndexError)"
  by (simp add: opt_tnc_opt_def opt_lbfgsb_opt_def opt_simplex_opt_def Let_def
      py_index_out_of_range)

theorem out_of_range_code_fails_witness:
  "(tnc_stub ([3, - 1], 12, 6) quad_f_fp [0, 0] False 1000 [] = Inr ([3, - 1], 12, 6)
      \<and> int (length tnc_rcstrings) \<le> 6
      \<and> fst (opt_tnc_opt (tnc_stub ([3, - 1], 12, 6)) (Some quad_f_fp) None None
             (opt_tnc_init args0)) = Some IndexError)
   \<and> (int (length rcstrings) \<le> 3
      \<and> fst (opt_lbfgsb_opt
               (lbfgsb_stub ([3, - 1], 0, \<lparr>funcalls = 12, warnflag = 3, task = ''ABNORMAL''\<rparr>))
               (Some quad_f_fp) None None (opt_lbfgsb_init args0)) = Some IndexError)
   \<and> (- 4 < - int (length statuses)
      \<and> fst (opt_simplex_opt (fmin_stub ([3, - 1], 0, 5, 12, - 4)) None (Some quad_f) None
               (opt_simplex_init args0)) = Some IndexError)"
  using out_of_range_code_fails [where fmin_tnc = "tnc_stub ([3, - 1], 12, 6)" and g = quad_f_fp
      and self = "opt_tnc_init args0" and x = "[3, - 1]" and n = 12 and rc = 6
      and f = None and fp = None]
    out_of_range_code_fails [where fmin_l_bfgs_b =
        "lbfgsb_stub ([3, - 1], 0, \<lparr>funcalls = 12, warnflag = 3, task = ''ABNORMAL''\<rparr>)"
      and g = quad_f_fp and self = "opt_lbfgsb_init args0" and x = "[3, - 1]" and fv = 0
      and d = "\<lparr>funcalls = 12, warnflag = 3, task = ''ABNORMAL''\<rparr>" and f = None and fp = None]
    out_of_range_code_fails [where fmin = "fmin_stub ([3, - 1], 0, 5, 12, - 4)"
      and self = "opt_simplex_init args0" and x = "[3, - 1]" and fv = 0 and its = 5
      and fcalls = 12 and wflag = "- 4" and f = "Some quad_f" and fp = None and f_fp = None]
  by (simp add: tnc_stub_def lbfgsb_stub_def fmin_stub_def tnc_rcstrings_def rcstrings_def
      statuses_def)

subsection \<open>Missing callbacks\<close>

text \<open>
  C5. Without the combined callback \<open>f_fp\<close> the L-BFGS-B adapter, and without the gradient
  \<open>fp\<close> the SCG adapter, raises \<open>AssertionError\<close>; the object is unchanged and nothing has
  happened before, in particular no call of the backend, whatever the backend is.
\<close>

theorem missing_gradient_fails_first:
  "opt_lbfgsb_opt fmin_l_bfgs_b None f fp self
     = (Some (AssertionError ''BFGS requires f_fp''), self, [])
   \<and> opt_SCG_opt SCG f_fp f None self = (Some (AssertionError []), self, [])"
  by (simp add: opt_lbfgsb_opt_def opt_SCG_opt_def split: option.splits)

subsection \<open>Unsupported tolerances\<close>

text \<open>
  C6. Whatever \<open>xtol\<close> and \<open>ftol\<close> hold, the L-BFGS-B adapter builds the same options, which
  hold neither of them but \<open>gtol\<close> (as \<open>pgtol\<close>) and \<open>bfgs_factor\<close> (as \<open>factr\<close>) when these are
  set, and calls the backend with these; when the backend returns with a warning flag of the
  table the run ends without an exception, and what it printed before the call is a warning
  for each of the two that was supplied. The same holds for the simplex adapter and \<open>gtol\<close>,
  with \<open>xtol\<close> and \<open>ftol\<close> as the options that remain.
\<close>

theorem unsupported_tolerance_ignored:
  "(fmin_l_bfgs_b g (x_init self) (if messages self then 1 else - 1) (max_iters self)
         (lbfgsb_opt_dict self) = Inr (x, fv, d)
      \<and> 0 \<le> warnflag d \<and> warnflag d < 3
    \<longrightarrow> (\<exists>self'. opt_lbfgsb_opt fmin_l_bfgs_b (Some g) f fp self
           = (None, self',
              (if xtol self = None then [] else [Print warn_xtol_lbfgsb])
              @ (if ftol self = None then [] else [Print warn_ftol_lbfgsb])
              @ [Call_fmin_l_bfgs_b (x_init self) (if messages self then 1 else - 1)
                   (max_iters self) (lbfgsb_opt_dict self),
                 Eval_f_fp x])))
   \<and> lbfgsb_opt_dict (self\<lparr>xtol := xt, ftol := ft\<rparr>) = lbfgsb_opt_dict self
   \<and> map_of (lbfgsb_opt_dict self) ''xtol'' = None
   \<and> map_of (lbfgsb_opt_dict self) ''ftol'' = None
   \<and> map_of (lbfgsb_opt_dict self) ''pgtol'' = gtol self
   \<and> map_of (lbfgsb_opt_dict self) ''factr'' = bfgs_factor self
   \<and> (fmin f (x_init self) (messages self) (max_f_eval self) (simplex_opt_dict self)
         = Inr (x, fv, its, fcalls, wflag)
      \<and> 0 \<le> wflag \<and> wflag < 3
    \<longrightarrow> (\<exists>self'. opt_simplex_opt fmin f_fp f fp self
           = (None, self',
              (if gtol self = None then [] else [Print warn_gtol_simplex])
              @ [Call_fmin (x_init self) (messages self) (max_f_eval self)
                   (simplex_opt_dict self)])))
   \<and> simplex_opt_dict (self\<lparr>gtol := gt\<rparr>) = simplex_opt_dict self
   \<and> map_of (simplex_opt_dict self) ''gtol'' = None
   \<and> map_of (simplex_opt_dict self) ''pgtol'' = None
   \<and> map_of (simplex_opt_dict self) ''xtol'' = xtol self
   \<and> map_of (simplex_opt_dict self) ''ftol'' = ftol self"
proof (intro conjI impI)
  assume h: "fmin_l_bfgs_b g (x_init self) (if messages self then 1 else - 1) (max_iters self)
         (lbfgsb_opt_dict self) = Inr (x, fv, d) \<and> 0 \<le> warnflag d \<and> warnflag d < 3"
  then have "py_index rcstrings (warnflag d) = Inr (rcstrings ! nat (warnflag d))"
    by (simp add: py_index_in_range rcstrings_def)
  then show "\<exists>self'. opt_lbfgsb_opt fmin_l_bfgs_b (Some g) f fp self
           = (None, self',
              (if xtol self = None then [] else [Print warn_xtol_lbfgsb])
              @ (if ftol self = None then [] else [Print warn_ftol_lbfgsb])
              @ [Call_fmin_l_bfgs_b (x_init self) (if messages self then 1 else - 1)
                   (max_iters self) (lbfgsb_opt_dict self),
                 Eval_f_fp x])"
    using h by (cases "messages self") (simp_all add: opt_lbfgsb_opt_def Let_def print_if_set_eq)
next
  show "lbfgsb_opt_dict (self\<lparr>xtol := xt, ftol := ft\<rparr>) = lbfgsb_opt_dict self"
    by (simp add: lbfgsb_opt_dict_def)
next
  show "map_of (lbfgsb_opt_dict self) ''xtol'' = None"
    and "map_of (lbfgsb_opt_dict self) ''ftol'' = None"
    and "map_of (lbfgsb_opt_dict self) ''pgtol'' = gtol self"
    and "map_of (lbfgsb_opt_dict self) ''factr'' = bfgs_factor self"
    by (simp_all add: lbfgsb_opt_dict_def opt_entry_def split: option.splits)
next
  assume h: "fmin f (x_init self) (messages self) (max_f_eval self) (simplex_opt_dict self)
         = Inr (x, fv, its, fcalls, wflag) \<and> 0 \<le> wflag \<and> wflag < 3"
  then have "py_index statuses wflag = Inr (statuses ! nat wflag)"
    by (simp add: py_index_in_range statuses_def)
  then show "\<exists>self'. opt_simplex_opt fmin f_fp f fp self
           = (None, self',
              (if gtol self = None then [] else [Print warn_gtol_simplex])
              @ [Call_fmin (x_init self) (messages self) (max_f_eval self)
                   (simplex_opt_dict self)])"
    using h by (simp add: opt_simplex_opt_def Let_def print_if_set_eq)
next
  show "simplex_opt_dict (self\<lparr>gtol := gt\<rparr>) = simplex_opt_dict self"
    by (simp add: simplex_opt_dict_def)
next
  show "map_of (simplex_opt_dict self) ''gtol'' = None"
    and "map_of (simplex_opt_dict self) ''pgtol'' = None"
    and "map_of (simplex_opt_dict self) ''xtol'' = xtol self"
    and "map_of (simplex_opt_dict self) ''ftol'' = ftol self"
    by (simp_all add: simplex_opt_dict_def opt_entry_def split: option.splits)
qed

theorem unsupported_tolerance_ignored_witness:
  "lbfgsb_stub ([3, - 1], 0, \<lparr>funcalls = 12, warnflag = 0, task = ''CONVERGENCE''\<rparr>)
        quad_f_fp [0, 0] (- 1) 1000 []
      = Inr ([3, - 1], 0, \<lparr>funcalls = 12, warnflag = 0, task = ''CONVERGENCE''\<rparr>)
   \<and> (\<exists>self'. opt_lbfgsb_opt
          (lbfgsb_stub ([3, - 1], 0, \<lparr>funcalls = 12, warnflag = 0, task = ''CONVERGENCE''\<rparr>))
          (Some quad_f_fp) None None
          (opt_lbfgsb_init (args0\<lparr>arg_xtol := Some (1 / 1000), arg_ftol := Some (1 / 100)\<rparr>))
        = (None, self',
           [Print warn_xtol_lbfgsb, Print warn_ftol_lbfgsb,
            Call_fmin_l_bfgs_b [0, 0] (- 1) 1000 [], Eval_f_fp [3, - 1]]))
   \<and> fmin_stub ([3, - 1], 0, 5, 12, 0) (Some quad_f) [0, 0] False 1000 [] = Inr ([3, - 1], 0, 5, 12, 0)
   \<and> (\<exists>self'. opt_simplex_opt (fmin_stub ([3, - 1], 0, 5, 12, 0)) None (Some quad_f) None
          (opt_simplex_init (args0\<lparr>arg_gtol := Some (1 / 1000)\<rparr>))
        = (None, self', [Print warn_gtol_simplex, Call_fmin [0, 0] False 1000 []]))"
  using unsupported_tolerance_ignored [where fmin_l_bfgs_b =
        "lbfgsb_stub ([3, - 1], 0, \<lparr>funcalls = 12, warnflag = 0, task = ''CONVERGENCE''\<rparr>)"
      and g = quad_f_fp
      and self = "opt_lbfgsb_init (args0\<lparr>arg_xtol := Some (1 / 1000), arg_ftol := Some (1 / 100)\<rparr>)"
      and x = "[3, - 1]" and fv = 0
      and d = "\<lparr>funcalls = 12, warnflag = 0, task = ''CONVERGENCE''\<rparr>" and f = None and fp = None]
    unsupported_tolerance_ignored [where fmin = "fmin_stub ([3, - 1], 0, 5, 12, 0)"
      and self = "opt_simplex_init (args0\<lparr>arg_gtol := Some (1 / 1000)\<rparr>)"
      and x = "[3, - 1]" and fv = 0 and its = 5 and fcalls = 12 and wflag = 0
      and f = "Some quad_f" and fp = None and f_fp = None]
  by (simp add: init_defs stub_defs dict_defs)

subsection \<open>The value at the optimum\<close>

text \<open>
  C7. Once the backend of the TNC or of the L-BFGS-B adapter has returned the point \<open>x\<close>, the
  adapter stores \<open>x\<close> in \<open>x_opt\<close> and the first component of \<open>f_fp x\<close> in \<open>f_opt\<close>, whatever
  value the backend reports and whether or not the status lookup that follows raises; the
  adapter evaluates \<open>f_fp\<close> once, at \<open>x\<close>, after the call of the backend.
\<close>

theorem f_opt_recomputed:
  "(fmin_tnc g (x_init self) (messages self) (max_f_eval self) (tnc_opt_dict self) = Inr (x, n, rc)
      \<and> opt_tnc_opt fmin_tnc (Some g) f fp self = (e, self', evs)
    \<longrightarrow> x_opt self' = Some x \<and> f_opt self' = Some (fst (g x))
        \<and> evs = [Call_fmin_tnc (x_init self) (messages self) (max_f_eval self) (tnc_opt_dict self),
                 Eval_f_fp x])
   \<and> (fmin_l_bfgs_b g (x_init self) (if messages self then 1 else - 1) (max_iters self)
         (lbfgsb_opt_dict self) = Inr (x, fv, d)
      \<and> opt_lbfgsb_opt fmin_l_bfgs_b (Some g) f fp self = (e, self', evs)
    \<longrightarrow> x_opt self' = Some x \<and> f_opt self' = Some (fst (g x))
        \<and> evs = print_if_set (xtol self) warn_xtol_lbfgsb @ print_if_set (ftol self) warn_ftol_lbfgsb
                 @ [Call_fmin_l_bfgs_b (x_init self) (if messages self then 1 else - 1)
                      (max_iters self) (lbfgsb_opt_dict self),
                    Eval_f_fp x])"
proof (intro conjI impI)
  assume "fmin_tnc g (x_init self) (messages self) (max_f_eval self) (tnc_opt_dict self)
            = Inr (x, n, rc)
          \<and> opt_tnc_opt fmin_tnc (Some g) f fp self = (e, self', evs)"
  then show "x_opt self' = Some x" "f_opt self' = Some (fst (g x))"
    "evs = [Call_fmin_tnc (x_init self) (messages self) (max_f_eval self) (tnc_opt_dict self),
            Eval_f_fp x]"
    by (cases "py_index tnc_rcstrings rc"; clarsimp simp: opt_tnc_opt_def Let_def)+
next
  assume "fmin_l_bfgs_b g (x_init self) (if messages self then 1 else - 1) (max_iters self)
            (lbfgsb_opt_dict self) = Inr (x, fv, d)
          \<and> opt_lbfgsb_opt fmin_l_bfgs_b (Some g) f fp self = (e, self', evs)"
  then show "x_opt self' = Some x" "f_opt self' = Some (fst (g x))"
    "evs = print_if_set (xtol self) warn_xtol_lbfgsb @ print_if_set (ftol self) warn_ftol_lbfgsb
           @ [Call_fmin_l_bfgs_b (x_init self) (if messages self then 1 else - 1)
                (max_iters self) (lbfgsb_opt_dict self),
              Eval_f_fp x]"
    by (cases "py_index rcstrings (warnflag d)"; cases "messages self";
        clarsimp simp: opt_lbfgsb_opt_def Let_def split: if_splits)+
qed

theorem f_opt_recomputed_witness:
  "tnc_stub ([3, - 1], 12, 1) quad_f_fp [0, 0] False 1000 [] = Inr ([3, - 1], 12, 1)
   \<and> f_opt (fst (snd (opt_tnc_opt (tnc_stub ([3, - 1], 12, 1)) (Some quad_f_fp) None None
                        (opt_tnc_init args0)))) = Some (fst (quad_f_fp [3, - 1]))
   \<and> lbfgsb_stub ([3, - 1], 42, \<lparr>funcalls = 12, warnflag = 0, task = ''CONVERGENCE''\<rparr>)
        quad_f_fp [0, 0] (- 1) 1000 []
      = Inr ([3, - 1], 42, \<lparr>funcalls = 12, warnflag = 0, task = ''CONVERGENCE''\<rparr>)
   \<and> f_opt (fst (snd (opt_lbfgsb_opt
          (lbfgsb_stub ([3, - 1], 42, \<lparr>funcalls = 12, warnflag = 0, task = ''CONVERGENCE''\<rparr>))
          (Some quad_f_fp) None None (opt_lbfgsb_init args0)))) = Some 0"
  using f_opt_recomputed [where fmin_tnc = "tnc_stub ([3, - 1], 12, 1)" and g = quad_f_fp
      and self = "opt_tnc_init args0" and x = "[3, - 1]" and n = 12 and rc = 1
      and f = None and fp = None
      and e = "fst (opt_tnc_opt (tnc_stub ([3, - 1], 12, 1)) (Some quad_f_fp) None None
                 (opt_tnc_init args0))"
      and self' = "fst (snd (opt_tnc_opt (tnc_stub ([3, - 1], 12, 1)) (Some quad_f_fp) None None
                 (opt_tnc_init args0)))"
      and evs = "snd (snd (opt_tnc_opt (tnc_stub ([3, - 1], 12, 1)) (Some quad_f_fp) None None
                 (opt_tnc_init args0)))"]
    f_opt_recomputed [where fmin_l_bfgs_b =
        "lbfgsb_stub ([3, - 1], 42, \<lparr>funcalls = 12, warnflag = 0, task = ''CONVERGENCE''\<rparr>)"
      and g = quad_f_fp and self = "opt_lbfgsb_init args0" and x = "[3, - 1]" and fv = 42
      and d = "\<lparr>funcalls = 12, warnflag = 0, task = ''CONVERGENCE''\<rparr>"
      and f = None and fp = None
      and e = "fst (opt_lbfgsb_opt
          (lbfgsb_stub ([3, - 1], 42, \<lparr>funcalls = 12, warnflag = 0, task = ''CONVERGENCE''\<rparr>))
          (Some quad_f_fp) None None (opt_lbfgsb_init args0))"
      and self' = "fst (snd (opt_lbfgsb_opt
          (lbfgsb_stub ([3, - 1], 42, \<lparr>funcalls = 12, warnflag = 0, task = ''CONVERGENCE''\<rparr>))
          (Some quad_f_fp) None None (opt_lbfgsb_init args0)))"
      and evs = "snd (snd (opt_lbfgsb_opt
          (lbfgsb_stub ([3, - 1], 42, \<lparr>funcalls = 12, warnflag = 0, task = ''CONVERGENCE''\<rparr>))
          (Some quad_f_fp) None None (opt_lbfgsb_init args0)))"]
  by (simp add: init_defs stub_defs dict_defs)

subsection \<open>Progress output\<close>

text \<open>
  C9. The constructor of every variant stores \<open>False\<close> in \<open>messages\<close> whatever the caller
  passes, and no call that a freshly constructed adapter makes to its backend asks for
  progress output.
\<close>

theorem messages_forced_off:
  "messages (Optimizer_new a) = False
   \<and> messages (opt_tnc_init a) = False
   \<and> messages (opt_lbfgsb_init a) = False
   \<and> messages (opt_simplex_init a) = False
   \<and> messages (fst (opt_SCG_init a)) = False
   \<and> messages (Opt_Adadelta_init sr dc mo a) = False
   \<and> (\<forall>ev \<in> set (snd (snd (opt_tnc_opt fmin_tnc f_fp f fp (opt_tnc_init a)))).
         \<not> progress_output ev)
   \<and> (\<forall>ev \<in> set (snd (snd (opt_lbfgsb_opt fmin_l_bfgs_b f_fp f fp (opt_lbfgsb_init a)))).
         \<not> progress_output ev)
   \<and> (\<forall>ev \<in> set (snd (snd (opt_simplex_opt fmin f_fp f fp (opt_simplex_init a)))).
         \<not> progress_output ev)
   \<and> (\<forall>ev \<in> set (snd (snd (opt_SCG_opt SCG f_fp f fp (fst (opt_SCG_init a))))).
         \<not> progress_output ev)"
proof -
  have m: "messages (Optimizer_new a) = False"
    by (simp add: Optimizer_new_def Optimizer_init_def)
  have p: "\<not> progress_output ev" if "ev \<in> set (print_if_set v s)" for ev :: "'a event" and v s
    using that by (auto simp: print_if_set_def split: option.splits)
  have 1: "\<forall>ev \<in> set (snd (snd (opt_tnc_opt fmin_tnc f_fp f fp (opt_tnc_init a)))).
         \<not> progress_output ev"
    using m by (auto simp: opt_tnc_opt_def opt_tnc_init_def Let_def split: option.splits sum.splits)
  have 2: "\<forall>ev \<in> set (snd (snd (opt_lbfgsb_opt fmin_l_bfgs_b f_fp f fp (opt_lbfgsb_init a)))).
         \<not> progress_output ev"
    using m p by (auto simp: opt_lbfgsb_opt_def opt_lbfgsb_init_def Let_def split: option.splits sum.splits)
  have 3: "\<forall>ev \<in> set (snd (snd (opt_simplex_opt fmin f_fp f fp (opt_simplex_init a)))).
         \<not> progress_output ev"
    using m p by (auto simp: opt_simplex_opt_def opt_simplex_init_def Let_def split: option.splits sum.splits)
  have 4: "\<forall>ev \<in> set (snd (snd (opt_SCG_opt SCG f_fp f fp (fst (opt_SCG_init a))))).
         \<not> progress_output ev"
    using m by (auto simp: opt_SCG_opt_def opt_SCG_init_def Let_def split: option.splits sum.splits)
  show ?thesis using m 1 2 3 4
    by (simp add: opt_tnc_init_def opt_lbfgsb_init_def opt_simplex_init_def opt_SCG_init_def
        Opt_Adadelta_init_def Let_def)
qed

theorem messages_forced_off_witness:
  "messages (opt_tnc_init (args0\<lparr>arg_messages := Some True\<rparr>)) = False
   \<and> Call_fmin_tnc [0, 0] False 1000 []
       \<in> set (snd (snd (opt_tnc_opt (tnc_stub ([3, - 1], 12, 1)) (Some quad_f_fp) None None
                          (opt_tnc_init (args0\<lparr>arg_messages := Some True\<rparr>)))))
   \<and> \<not> progress_output (Call_fmin_tnc [0, 0] False 1000 [] :: real list event)
   \<and> Call_fmin_l_bfgs_b [0, 0] (- 1) 1000 []
       \<in> set (snd (snd (opt_lbfgsb_opt
              (lbfgsb_stub ([3, - 1], 0, \<lparr>funcalls = 12, warnflag = 0, task = ''CONVERGENCE''\<rparr>))
              (Some quad_f_fp) None None
              (opt_lbfgsb_init (args0\<lparr>arg_messages := Some True\<rparr>)))))
   \<and> \<not> progress_output (Call_fmin_l_bfgs_b [0, 0] (- 1) 1000 [] :: real list event)
   \<and> Call_fmin [0, 0] False 1000 []
       \<in> set (snd (snd (opt_simplex_opt (fmin_stub ([3, - 1], 0, 5, 12, 0)) None (Some quad_f) None
                          (opt_simplex_init (args0\<lparr>arg_messages := Some True\<rparr>)))))
   \<and> \<not> progress_output (Call_fmin [0, 0] False 1000 [] :: real list event)
   \<and> Call_SCG [0, 0] False 1000 1000 None None None
       \<in> set (snd (snd (opt_SCG_opt (scg_stub ([3, - 1], [10, 0], 7, ''converged''))
                          None (Some quad_f) (Some quad_fp)
                          (fst (opt_SCG_init (args0\<lparr>arg_messages := Some True\<rparr>))))))
   \<and> \<not> progress_output (Call_SCG [0, 0] False 1000 1000 None None None :: real list event)"
  using messages_forced_off [where a = "args0\<lparr>arg_messages := Some True\<rparr>"
      and fmin_tnc = "tnc_stub ([3, - 1], 12, 1)"
      and fmin_l_bfgs_b =
        "lbfgsb_stub ([3, - 1], 0, \<lparr>funcalls = 12, warnflag = 0, task = ''CONVERGENCE''\<rparr>)"
      and fmin = "fmin_stub ([3, - 1], 0, 5, 12, 0)"
      and SCG = "scg_stub ([3, - 1], [10, 0], 7, ''converged'')"]
  by (simp add: init_defs stub_defs dict_defs opt_tnc_opt_def opt_lbfgsb_opt_def
      opt_simplex_opt_def opt_SCG_opt_def py_index_def tnc_rcstrings_def rcstrings_def
      statuses_def)

subsection \<open>The registry\<close>

lemma find_from_lower_bound: "find_from s sub i = - 1 \<or> i \<le> find_from s sub i"
  by (induction s arbitrary: i) (auto, force)

lemma find_from_sublist: "0 \<le> i \<Longrightarrow> find_from s sub i \<noteq> - 1 \<longleftrightarrow> sublist sub s"
proof (induction s arbitrary: i)
  case Nil
  then show ?case by auto
next
  case (Cons c s)
  from Cons.prems have "0 \<le> i + 1" by simp
  from Cons.IH [OF this] Cons.prems show ?case
    by (auto simp: sublist_Cons_right)
qed

lemma py_find_sublist: "py_find s sub \<noteq> - 1 \<longleftrightarrow> sublist sub s"
  by (simp add: py_find_def find_from_sublist)

lemma get_optimizer_unfold:
  "get_optimizer q =
    (if contains_ci q ''fmin_tnc'' then Inr Opt_tnc
     else if contains_ci q ''simplex'' then Inr Opt_simplex
     else if contains_ci q ''lbfgsb'' then Inr Opt_lbfgsb
     else if contains_ci q ''scg'' then Inr Opt_SCG
     else if contains_ci q ''adadelta'' then Inr Opt_Adadelta
     else Inl (KeyError (''No optimizer was found matching the name: '' @ q)))"
  by (simp add: get_optimizer_def optimizers_def py_find_sublist contains_ci_def)

lemma lookup_spec_unfold:
  "lookup_spec q =
    (if contains_ci q ''fmin_tnc'' then Some Opt_tnc
     else if contains_ci q ''simplex'' then Some Opt_simplex
     else if contains_ci q ''lbfgsb'' then Some Opt_lbfgsb
     else if contains_ci q ''scg'' then Some Opt_SCG
     else if contains_ci q ''adadelta'' then Some Opt_Adadelta
     else None)"
  by (simp add: lookup_spec_def optimizers_def)

lemma lower_literals:
  "lower ''LBFGSB'' = ''lbfgsb''" "lower ''lbfgsb'' = ''lbfgsb''"
  "lower ''doesnotexist'' = ''doesnotexist''"
  "lower ''fmin_tnc'' = ''fmin_tnc''" "lower ''simplex'' = ''simplex''"
  "lower ''scg'' = ''scg''" "lower ''adadelta'' = ''adadelta''"
  by code_simp+

text \<open>
  C4. \<open>get_optimizer\<close> is the specification's lookup: it returns the variant of the first
  registered key that contains the query, letter case aside, and raises when there is none;
  so it succeeds exactly when some registered key contains the query. \<open>LBFGSB\<close> and \<open>lbfgsb\<close>
  both give the L-BFGS-B variant.
\<close>

theorem lookup_first_containing_key:
  "get_optimizer q = (case lookup_spec q of None \<Rightarrow> Inl (no_such_optimizer q) | Some v \<Rightarrow> Inr v)
   \<and> ((\<exists>v. get_optimizer q = Inr v) \<longleftrightarrow> (\<exists>key \<in> fst ` set optimizers. contains_ci q key))
   \<and> get_optimizer ''LBFGSB'' = Inr Opt_lbfgsb
   \<and> get_optimizer ''lbfgsb'' = Inr Opt_lbfgsb"
proof (intro conjI)
  show "get_optimizer q = (case lookup_spec q of None \<Rightarrow> Inl (no_such_optimizer q) | Some v \<Rightarrow> Inr v)"
    by (simp add: get_optimizer_unfold lookup_spec_unfold no_such_optimizer_def)
  show "(\<exists>v. get_optimizer q = Inr v) \<longleftrightarrow> (\<exists>key \<in> fst ` set optimizers. contains_ci q key)"
    by (simp add: get_optimizer_unfold optimizers_def)
  show "get_optimizer ''LBFGSB'' = Inr Opt_lbfgsb"
    by (simp add: get_optimizer_unfold contains_ci_def lower_literals sublist_code(3))
  show "get_optimizer ''lbfgsb'' = Inr Opt_lbfgsb"
    by (simp add: get_optimizer_unfold contains_ci_def lower_literals sublist_code(3))
qed

theorem lookup_first_containing_key_witness:
  "(\<exists>key \<in> fst ` set optimizers. contains_ci ''bfgs'' key)
   \<and> lookup_spec ''bfgs'' = Some Opt_lbfgsb
   \<and> get_optimizer ''bfgs'' = Inr Opt_lbfgsb"
proof -
  have l: "lower ''bfgs'' = ''bfgs''"
    by code_simp
  have "lookup_spec ''bfgs'' = Some Opt_lbfgsb"
    by (simp add: lookup_spec_unfold contains_ci_def lower_literals l sublist_code(3))
  with lookup_first_containing_key [of "''bfgs''"] show ?thesis
    by auto
qed

text \<open>
  C8. When no registered key contains the query, letter case aside, \<open>get_optimizer\<close> raises
  \<open>KeyError\<close> with the message that no optimizer matches the name.
\<close>

theorem lookup_fails_without_containing_key:
  "(\<forall>key \<in> fst ` set optimizers. \<not> contains_ci q key)
   \<Longrightarrow> get_optimizer q = Inl (KeyError (''No optimizer was found matching the name: '' @ q))"
  by (simp add: get_optimizer_unfold optimizers_def)

theorem lookup_fails_without_containing_key_witness:
  "\<not> contains_ci ''doesnotexist'' ''fmin_tnc''
   \<and> \<not> contains_ci ''doesnotexist'' ''simplex''
   \<and> \<not> contains_ci ''doesnotexist'' ''lbfgsb''
   \<and> \<not> contains_ci ''doesnotexist'' ''scg''
   \<and> \<not> contains_ci ''doesnotexist'' ''adadelta''
   \<and> get_optimizer ''doesnotexist''
       = Inl (KeyError ''No optimizer was found matching the name: doesnotexist'')"
proof -
  have h: "\<forall>key \<in> fst ` set optimizers. \<not> contains_ci ''doesnotexist'' key"
    by (simp add: optimizers_def contains_ci_def lower_literals sublist_code(3))
  from lookup_fails_without_containing_key [OF h] h show ?thesis
    by (simp add: optimizers_def)
qed

subsection \<open>The Adadelta adapter\<close>

lemma adadelta_loop_frame:
  assumes "adadelta_loop it k self = Some self'"
  shows "self'\<lparr>x_opt := x_opt self, status := status self\<rparr> = self"
  by (rule adadelta_loop.raw_induct
        [where P = "\<lambda>it k self self'. self'\<lparr>x_opt := x_opt self, status := status self\<rparr> = self",
         OF _ assms])
     (auto split: option.splits prod.splits if_splits)

lemma adadelta_loop_stops:
  assumes "it j = Some (n, w)" and "max_iters self \<le> n" and "k \<le> j"
    and "\<forall>i. k \<le> i \<and> i < j \<longrightarrow> (\<exists>n' w'. it i = Some (n', w') \<and> n' < max_iters self)"
  shows "adadelta_loop it k self = Some (self\<lparr>x_opt := Some w, status := Some status_adadelta\<rparr>)"
  using assms
proof (induction "j - k" arbitrary: k)
  case 0
  then have "k = j" by simp
  with 0 show ?case by (subst adadelta_loop.simps) simp
next
  case (Suc m)
  then have kj: "k < j" by simp
  with Suc.prems obtain n' w' where s: "it k = Some (n', w')" "n' < max_iters self"
    by blast
  have "adadelta_loop it (Suc k) self
          = Some (self\<lparr>x_opt := Some w, status := Some status_adadelta\<rparr>)"
    using Suc.hyps(1) [of "Suc k"] Suc.hyps(2) Suc.prems kj by auto
  with s show ?case by (subst adadelta_loop.simps) simp
qed

lemma adadelta_stub_result:
  "0 < max_iters self \<Longrightarrow>
   adadelta_loop (adadelta_stub x0 fp sr dc mo) 0 self
     = Some (self\<lparr>x_opt := Some x0, status := Some status_adadelta\<rparr>)"
  by (rule adadelta_loop_stops [where j = "nat (max_iters self) - 1" and n = "max_iters self"])
     (auto simp: adadelta_stub_def)

lemma Optimizer_str_unset:
  "f_opt self = None \<or> funct_eval self = None \<Longrightarrow> Optimizer_str fmt_3f fmt_d self = Inl TypeError"
  by (auto simp: Optimizer_str_def Let_def split: option.splits)

lemma Opt_Adadelta_opt_frame:
  assumes "Opt_Adadelta_opt Adadelta f_fp f fp self = Some (e, self', evs)"
  shows "self'\<lparr>x_opt := x_opt self, status := status self\<rparr> = self"
proof (cases fp)
  case None
  with assms show ?thesis by (simp add: Opt_Adadelta_opt_def)
next
  case (Some fp')
  with assms have "adadelta_loop
      (Adadelta (x_init self) fp' (step_rate self) (decay self) (momentum self)) 0 self = Some self'"
    by (auto simp: Opt_Adadelta_opt_def Let_def split: option.splits)
  then show ?thesis by (rule adadelta_loop_frame)
qed

lemma Opt_Adadelta_init_unset:
  "x_opt (Opt_Adadelta_init sr dc mo a) = None"
  "status (Opt_Adadelta_init sr dc mo a) = None"
  "f_opt (Opt_Adadelta_init sr dc mo a) = None"
  "funct_eval (Opt_Adadelta_init sr dc mo a) = None"
  "trace (Opt_Adadelta_init sr dc mo a) = None"
  "time (Opt_Adadelta_init sr dc mo a) = ''Not available''"
  by (simp_all add: Opt_Adadelta_init_def Optimizer_new_def Optimizer_init_def Let_def)

text \<open>
  C10. When \<open>opt\<close> of a freshly constructed Adadelta adapter returns, the object differs from
  the constructed one in \<open>x_opt\<close> and \<open>status\<close> at most: \<open>f_opt\<close>, \<open>funct_eval\<close> and \<open>trace\<close>
  are still \<open>None\<close>, and \<open>__str__\<close> raises \<open>TypeError\<close>. The same three attributes are
  \<open>None\<close>, and \<open>__str__\<close> raises, after \<open>run\<close>, which stores the elapsed time in addition.
\<close>

theorem adadelta_leaves_results_unset:
  "(Opt_Adadelta_opt Adadelta f_fp f fp (Opt_Adadelta_init sr dc mo a) = Some (e, self', evs)
    \<longrightarrow> self'\<lparr>x_opt := None, status := None\<rparr> = Opt_Adadelta_init sr dc mo a
        \<and> f_opt self' = None \<and> funct_eval self' = None \<and> trace self' = None
        \<and> Optimizer_str fmt_3f fmt_d self' = Inl TypeError)
   \<and> (run (Opt_Adadelta_opt Adadelta f_fp f fp) elapsed (Opt_Adadelta_init sr dc mo a)
         = Some (e, self', evs)
    \<longrightarrow> f_opt self' = None \<and> funct_eval self' = None \<and> trace self' = None
        \<and> Optimizer_str fmt_3f fmt_d self' = Inl TypeError)"
proof (intro conjI impI)
  let ?s = "Opt_Adadelta_init sr dc mo a"
  have frame: "f_opt s' = None \<and> funct_eval s' = None \<and> trace s' = None
      \<and> s'\<lparr>x_opt := None, status := None\<rparr> = ?s"
    if "Opt_Adadelta_opt Adadelta f_fp f fp ?s = Some (e', s', evs')" for e' s' evs'
  proof -
    from Opt_Adadelta_opt_frame [OF that]
    have eq: "s'\<lparr>x_opt := None, status := None\<rparr> = ?s"
      by (simp add: Opt_Adadelta_init_unset)
    from arg_cong [where f = f_opt, OF eq] have "f_opt s' = None"
      by (simp add: Opt_Adadelta_init_unset)
    moreover from arg_cong [where f = funct_eval, OF eq] have "funct_eval s' = None"
      by (simp add: Opt_Adadelta_init_unset)
    moreover from arg_cong [where f = trace, OF eq] have "trace s' = None"
      by (simp add: Opt_Adadelta_init_unset)
    ultimately show ?thesis using eq by simp
  qed
  {
    assume h: "Opt_Adadelta_opt Adadelta f_fp f fp ?s = Some (e, self', evs)"
    from frame [OF h] show "self'\<lparr>x_opt := None, status := None\<rparr> = ?s"
      "f_opt self' = None" "funct_eval self' = None" "trace self' = None"
      by simp_all
    then show "Optimizer_str fmt_3f fmt_d self' = Inl TypeError"
      by (simp add: Optimizer_str_unset)
  }
  {
    assume h: "run (Opt_Adadelta_opt Adadelta f_fp f fp) elapsed ?s = Some (e, self', evs)"
    then obtain e' s' evs' where o: "Opt_Adadelta_opt Adadelta f_fp f fp ?s = Some (e', s', evs')"
      and s: "self' = s' \<or> self' = s'\<lparr>time := elapsed\<rparr>"
      by (auto simp: run_def split: option.splits prod.splits)
    from frame [OF o] s show "f_opt self' = None" "funct_eval self' = None" "trace self' = None"
      by auto
    then show "Optimizer_str fmt_3f fmt_d self' = Inl TypeError"
      by (simp add: Optimizer_str_unset)
  }
qed

theorem adadelta_leaves_results_unset_witness:
  "Opt_Adadelta_opt adadelta_stub None None (Some quad_fp) (Opt_Adadelta_init None None None args0)
     = Some (None,
         (Opt_Adadelta_init None None None args0)
           \<lparr>x_opt := Some [0, 0], status := Some status_adadelta\<rparr>,
         [Call_Adadelta [0, 0] (1 / 10) (9 / 10) 0])
   \<and> f_opt ((Opt_Adadelta_init None None None args0)
              \<lparr>x_opt := Some [0, 0], status := Some status_adadelta\<rparr>) = None
   \<and> Optimizer_str fmt_stub fmt_stub
        ((Opt_Adadelta_init None None None args0)
           \<lparr>x_opt := Some [0, 0], status := Some status_adadelta\<rparr>) = Inl TypeError"
proof -
  have pos: "0 < max_iters (Opt_Adadelta_init None None None args0)"
    by (simp add: init_defs Let_def)
  have o: "Opt_Adadelta_opt adadelta_stub None None (Some quad_fp)
             (Opt_Adadelta_init None None None args0)
     = Some (None,
         (Opt_Adadelta_init None None None args0)
           \<lparr>x_opt := Some [0, 0], status := Some status_adadelta\<rparr>,
         [Call_Adadelta [0, 0] (1 / 10) (9 / 10) 0])"
    by (simp add: Opt_Adadelta_opt_def Let_def adadelta_stub_result [OF pos])
       (simp add: init_defs Let_def)
  from adadelta_leaves_results_unset [where Adadelta = adadelta_stub and f_fp = None
      and f = None and fp = "Some quad_fp" and sr = None and dc = None and mo = None
      and a = args0 and e = None and fmt_3f = fmt_stub and fmt_d = fmt_stub] o
  show ?thesis by simp
qed

end
